theory Spec2Isabelle
  imports Main "HOL-Library.AList" "HOL-Library.Sublist"
begin

section \<open>Python values, exceptions and the driver interface\<close>

text \<open>
  The repository is a data-access layer over SQLAlchemy: \<open>postgres_sql_connection.py\<close>
  (class \<open>PostgreSQLConnection\<close>: the engine, the context manager \<open>get_connection\<close>
  and \<open>test_connection\<close>) and \<open>user_crud.py\<close> (class \<open>UserCRUD\<close>: five operations on
  the table \<open>users\<close>). The relational engine is an external collaborator, so it is a
  parameter of the model: a record of the five driver calls the code makes, each a
  function of an abstract engine state that either raises or returns. Calls to the
  logger are left out: they change neither the engine nor the value returned.
\<close>

datatype pyval = PNone | PBool bool | PInt int | PStr string

text \<open>
  The exceptions the code tells apart. Below \<open>Exception\<close>: \<open>SQLAlchemyError\<close> (with its
  message) and everything else; \<open>TypeError\<close> and \<open>IndexError\<close> are the two that the
  Python of the repository can raise by itself, when it subscripts \<open>None\<close> or reads a
  column a row does not have. Outside \<open>Exception\<close>: \<open>KeyboardInterrupt\<close> and
  \<open>SystemExit\<close>, which \<open>except Exception\<close> does not catch.
\<close>

datatype exn =
    SQLAlchemyError string | TypeError | IndexError | OtherException string
  | KeyboardInterrupt | SystemExit

text \<open>\<open>isinstance(e, Exception)\<close>.\<close>

fun is_Exception :: "exn \<Rightarrow> bool" where
  "is_Exception KeyboardInterrupt = False"
| "is_Exception SystemExit = False"
| "is_Exception e = True"

type_synonym params = "(string \<times> pyval) list"

type_synonym row = "pyval list"

text \<open>
  What \<open>conn.execute\<close> returns: the rows the statement produced, in the engine's order,
  and \<open>rowcount\<close>.
\<close>

record cursor =
  rows :: "row list"
  rowcount :: int

record 'db driver =
  engine_connect :: "'db \<Rightarrow> (exn + unit) \<times> 'db"
  conn_execute :: "string \<Rightarrow> params \<Rightarrow> 'db \<Rightarrow> (exn + cursor) \<times> 'db"
  conn_commit :: "'db \<Rightarrow> (exn + unit) \<times> 'db"
  conn_rollback :: "'db \<Rightarrow> (exn + unit) \<times> 'db"
  conn_close :: "'db \<Rightarrow> (exn + unit) \<times> 'db"

text \<open>
  Every driver call is recorded, whether it returns or raises. A statement is recorded
  with its text and its bound parameters (\<open>[]\<close> when \<open>execute\<close> is called with the text
  alone).
\<close>

datatype event = EConnect | EExecute string params | ECommit | ERollback | EClose

type_synonym 'db world = "'db \<times> event list"

type_synonym ('a, 'db) io = "'db world \<Rightarrow> (exn + 'a) \<times> 'db world"

definition call :: "event \<Rightarrow> ('db \<Rightarrow> (exn + 'a) \<times> 'db) \<Rightarrow> ('a, 'db) io" where
  "call ev f w = (case f (fst w) of (r, s) \<Rightarrow> (r, (s, snd w @ [ev])))"

definition returns :: "'a \<Rightarrow> ('a, 'db) io" where
  "returns v w = (Inr v, w)"

definition and_then :: "('a, 'db) io \<Rightarrow> ('a \<Rightarrow> ('b, 'db) io) \<Rightarrow> ('b, 'db) io" where
  "and_then m f w = (case m w of (Inl e, w1) \<Rightarrow> (Inl e, w1) | (Inr v, w1) \<Rightarrow> f v w1)"

definition lift :: "exn + 'a \<Rightarrow> ('a, 'db) io" where
  "lift r w = (r, w)"

section \<open>postgres\_sql\_connection.py\<close>

text \<open>
  \<open>get_connection\<close> (lines 77 to 103), a generator under \<open>@contextmanager\<close>, applied to
  the body of a \<open>with\<close> block.
  \<^item> \<open>self.engine.connect()\<close> raises: \<open>connection\<close> is still \<open>None\<close>, so the handler
    that catches the exception skips the rollback and re-raises, and \<open>finally\<close> skips
    the close.
  \<^item> The body returns: the generator resumes after \<open>yield\<close> and \<open>finally\<close> closes the
    connection; an exception of \<open>close\<close> leaves the \<open>with\<close> statement in place of the
    body's value.
  \<^item> The body raises an exception below \<open>Exception\<close>: it is thrown into the generator
    at \<open>yield\<close>; both handlers roll back and re-raise, then \<open>finally\<close> closes. An
    exception of \<open>rollback\<close> replaces the one being handled, and an exception of
    \<open>close\<close> replaces either.
  \<^item> The body raises an exception outside \<open>Exception\<close>: neither handler matches, so
    there is no rollback; \<open>finally\<close> closes and the exception propagates.
  The test \<open>if connection:\<close> is true of every connection object.
\<close>

definition get_connection :: "'db driver \<Rightarrow> ('a, 'db) io \<Rightarrow> ('a, 'db) io" where
  "get_connection d body w =
     (case call EConnect (engine_connect d) w of
        (Inl e, w1) \<Rightarrow> (Inl e, w1)
      | (Inr u, w1) \<Rightarrow>
          (case body w1 of
             (Inr v, w2) \<Rightarrow>
               (case call EClose (conn_close d) w2 of
                  (Inl e3, w3) \<Rightarrow> (Inl e3, w3)
                | (Inr u3, w3) \<Rightarrow> (Inr v, w3))
           | (Inl e, w2) \<Rightarrow>
               (if is_Exception e
                then (case call ERollback (conn_rollback d) w2 of
                        (Inl e2, w3) \<Rightarrow>
                          (case call EClose (conn_close d) w3 of
                             (Inl e3, w4) \<Rightarrow> (Inl e3, w4)
                           | (Inr u3, w4) \<Rightarrow> (Inl e2, w4))
                      | (Inr u2, w3) \<Rightarrow>
                          (case call EClose (conn_close d) w3 of
                             (Inl e3, w4) \<Rightarrow> (Inl e3, w4)
                           | (Inr u3, w4) \<Rightarrow> (Inl e, w4)))
                else (case call EClose (conn_close d) w2 of
                        (Inl e3, w3) \<Rightarrow> (Inl e3, w3)
                      | (Inr u3, w3) \<Rightarrow> (Inl e, w3)))))"

text \<open>\<open>result.fetchone()\<close>: the first row, or \<open>None\<close>.\<close>

definition fetchone :: "cursor \<Rightarrow> row option" where
  "fetchone result = (case rows result of [] \<Rightarrow> None | r # rest \<Rightarrow> Some r)"

text \<open>\<open>row[i]\<close> on a row, and on what \<open>fetchone\<close> returned (\<open>None[i]\<close> is a \<open>TypeError\<close>).\<close>

definition row_get :: "row \<Rightarrow> nat \<Rightarrow> exn + pyval" where
  "row_get r i = (if i < length r then Inr (r ! i) else Inl IndexError)"

definition subscript :: "row option \<Rightarrow> nat \<Rightarrow> exn + pyval" where
  "subscript r i = (case r of None \<Rightarrow> Inl TypeError | Some xs \<Rightarrow> row_get xs i)"




section \<open>user\_crud.py\<close>

text \<open>
  \<open>except SQLAlchemyError as e: ... return dflt\<close> around a \<open>with\<close> block: an
  \<open>SQLAlchemyError\<close> becomes the value \<open>dflt\<close>, any other exception propagates.
\<close>

definition except_SQLAlchemyError :: "'a \<Rightarrow> (exn + 'a) \<times> 'w \<Rightarrow> (exn + 'a) \<times> 'w" where
  "except_SQLAlchemyError dflt r =
     (case r of
        (Inl (SQLAlchemyError m), w) \<Rightarrow> (Inr dflt, w)
      | (Inl e, w) \<Rightarrow> (Inl e, w)
      | (Inr v, w) \<Rightarrow> (Inr v, w))"

text \<open>The statement texts, with the line breaks and the indentation of the source.\<close>

definition insert_sql :: string where
  "insert_sql =
     [CHR 0x0A] @ ''                    INSERT INTO users (nombre, email, edad) '' @
     [CHR 0x0A] @ ''                    VALUES (:nombre, :email, :edad) '' @
     [CHR 0x0A] @ ''                    RETURNING id'' @
     [CHR 0x0A] @ ''                ''"

definition select_one_sql :: string where
  "select_one_sql = ''SELECT id, nombre, email, edad FROM users WHERE id = :user_id''"

definition select_all_sql :: string where
  "select_all_sql = ''SELECT id, nombre, email, edad FROM users ORDER BY id''"

definition delete_sql :: string where
  "delete_sql = ''DELETE FROM users WHERE id = :user_id''"

text \<open>\<open>sep.join(xs)\<close>.\<close>

fun join :: "string \<Rightarrow> string list \<Rightarrow> string" where
  "join sep [] = []"
| "join sep [x] = x"
| "join sep (x # y # ys) = x @ sep @ join sep (y # ys)"

text \<open>The f-string of \<open>update_user\<close> (lines 170 to 174).\<close>

definition update_sql :: "string list \<Rightarrow> string" where
  "update_sql updates =
     [CHR 0x0A] @ ''                    UPDATE users '' @
     [CHR 0x0A] @ ''                    SET '' @ join '', '' updates @ '' '' @
     [CHR 0x0A] @ ''                    WHERE id = :user_id'' @
     [CHR 0x0A] @ ''                ''"

subsection \<open>create\_user\<close>

definition create_user_body :: "'db driver \<Rightarrow> pyval \<Rightarrow> pyval \<Rightarrow> pyval \<Rightarrow> (pyval, 'db) io" where
  "create_user_body d nombre email edad =
     (let ps = [(''nombre'', nombre), (''email'', email), (''edad'', edad)] in
      and_then (call (EExecute insert_sql ps) (conn_execute d insert_sql ps))
        (\<lambda>result. and_then (call ECommit (conn_commit d))
           (\<lambda>u. and_then (lift (subscript (fetchone result) 0))
              (\<lambda>user_id. returns user_id))))"

definition create_user :: "'db driver \<Rightarrow> pyval \<Rightarrow> pyval \<Rightarrow> pyval \<Rightarrow> (pyval, 'db) io" where
  "create_user d nombre email edad w =
     except_SQLAlchemyError PNone (get_connection d (create_user_body d nombre email edad) w)"

subsection \<open>read\_user and read\_all\_users\<close>

text \<open>
  The dictionary built from a row (lines 89 to 94 and 120 to 125): the four subscripts
  are evaluated in order and the first column that is missing raises \<open>IndexError\<close>.
\<close>

definition user_data :: "row \<Rightarrow> exn + params" where
  "user_data r =
     (case row_get r 0 of Inl e \<Rightarrow> Inl e | Inr c0 \<Rightarrow>
      (case row_get r 1 of Inl e \<Rightarrow> Inl e | Inr c1 \<Rightarrow>
       (case row_get r 2 of Inl e \<Rightarrow> Inl e | Inr c2 \<Rightarrow>
        (case row_get r 3 of Inl e \<Rightarrow> Inl e | Inr c3 \<Rightarrow>
           Inr [(''id'', c0), (''nombre'', c1), (''email'', c2), (''edad'', c3)]))))"

text \<open>\<open>if row:\<close> is false for \<open>None\<close> and for a row of no columns.\<close>

definition truthy :: "row option \<Rightarrow> bool" where
  "truthy r = (case r of None \<Rightarrow> False | Some xs \<Rightarrow> xs \<noteq> [])"

definition read_user_body :: "'db driver \<Rightarrow> pyval \<Rightarrow> (params option, 'db) io" where
  "read_user_body d user_id =
     (let ps = [(''user_id'', user_id)] in
      and_then (call (EExecute select_one_sql ps) (conn_execute d select_one_sql ps))
        (\<lambda>result.
           (case fetchone result of
              Some r \<Rightarrow>
                (if truthy (Some r)
                 then and_then (lift (user_data r)) (\<lambda>u. returns (Some u))
                 else returns None)
            | None \<Rightarrow> returns None)))"

definition read_user :: "'db driver \<Rightarrow> pyval \<Rightarrow> (params option, 'db) io" where
  "read_user d user_id w =
     except_SQLAlchemyError None (get_connection d (read_user_body d user_id) w)"

text \<open>The loop \<open>for row in result: ... users.append(user_data)\<close>.\<close>

fun collect_users :: "row list \<Rightarrow> params list \<Rightarrow> exn + params list" where
  "collect_users [] users = Inr users"
| "collect_users (r # rest) users =
     (case user_data r of
        Inl e \<Rightarrow> Inl e
      | Inr u \<Rightarrow> collect_users rest (users @ [u]))"

definition read_all_users_body :: "'db driver \<Rightarrow> (params list, 'db) io" where
  "read_all_users_body d =
     and_then (call (EExecute select_all_sql []) (conn_execute d select_all_sql []))
       (\<lambda>result. lift (collect_users (rows result) []))"

definition read_all_users :: "'db driver \<Rightarrow> (params list, 'db) io" where
  "read_all_users d w =
     except_SQLAlchemyError [] (get_connection d (read_all_users_body d) w)"

subsection \<open>update\_user and delete\_user\<close>

text \<open>
  Lines 150 to 163: the assignment list and the parameter dictionary, grown by one
  entry for each argument that is not \<open>None\<close>. \<open>AList.update\<close> is \<open>params[k] = v\<close> on a
  dictionary kept in insertion order.
\<close>

definition update_fields :: "pyval \<Rightarrow> pyval \<Rightarrow> pyval \<Rightarrow> pyval \<Rightarrow> string list \<times> params" where
  "update_fields user_id nombre email edad =
     (let updates0 = [];
          params0 = [(''user_id'', user_id)];
          (updates1, params1) =
            (if nombre \<noteq> PNone
             then (updates0 @ [''nombre = :nombre''], AList.update ''nombre'' nombre params0)
             else (updates0, params0));
          (updates2, params2) =
            (if email \<noteq> PNone
             then (updates1 @ [''email = :email''], AList.update ''email'' email params1)
             else (updates1, params1));
          (updates3, params3) =
            (if edad \<noteq> PNone
             then (updates2 @ [''edad = :edad''], AList.update ''edad'' edad params2)
             else (updates2, params2))
      in (updates3, params3))"

text \<open>\<open>result.rowcount > 0\<close> after the commit (lines 176 to 185 and 204 to 213).\<close>

definition write_body :: "'db driver \<Rightarrow> string \<Rightarrow> params \<Rightarrow> (bool, 'db) io" where
  "write_body d query ps =
     and_then (call (EExecute query ps) (conn_execute d query ps))
       (\<lambda>result. and_then (call ECommit (conn_commit d))
          (\<lambda>u. if rowcount result > 0 then returns True else returns False))"

definition update_user :: "'db driver \<Rightarrow> pyval \<Rightarrow> pyval \<Rightarrow> pyval \<Rightarrow> pyval \<Rightarrow> (bool, 'db) io" where
  "update_user d user_id nombre email edad w =
     (case update_fields user_id nombre email edad of
        (updates, ps) \<Rightarrow>
          (if updates = [] then (Inr False, w)
           else except_SQLAlchemyError False
                  (get_connection d (write_body d (update_sql updates) ps) w)))"

definition delete_user :: "'db driver \<Rightarrow> pyval \<Rightarrow> (bool, 'db) io" where
  "delete_user d user_id w =
     except_SQLAlchemyError False
       (get_connection d (write_body d delete_sql [(''user_id'', user_id)]) w)"

section \<open>A test double for the driver\<close>

text \<open>
  A driver without state whose five calls answer with fixed outcomes; the concrete
  instances below are evaluated on it.
\<close>

definition stub_driver ::
    "exn + unit \<Rightarrow> exn + cursor \<Rightarrow> exn + unit \<Rightarrow> exn + unit \<Rightarrow> exn + unit \<Rightarrow> unit driver" where
  "stub_driver c e m r x =
     \<lparr>engine_connect = (\<lambda>s. (c, s)),
      conn_execute = (\<lambda>q ps s. (e, s)),
      conn_commit = (\<lambda>s. (m, s)),
      conn_rollback = (\<lambda>s. (r, s)),
      conn_close = (\<lambda>s. (x, s))\<rparr>"




definition ok :: "exn + unit" where
  "ok = Inr ()"

definition new_world :: "unit world" where
  "new_world = ((), [])"

section \<open>Observations on a run\<close>

text \<open>The events recorded when an operation has returned or raised, and whether it raised.\<close>

definition trace_of :: "'r \<times> 'db world \<Rightarrow> event list" where
  "trace_of r = snd (snd r)"

definition raised :: "(exn + 'a) \<times> 'w \<Rightarrow> bool" where
  "raised r = isl (fst r)"

text \<open>The engine state when an operation has returned or raised.\<close>

definition state_of :: "'r \<times> 'db world \<Rightarrow> 'db" where
  "state_of r = fst (snd r)"

text \<open>The body of a \<open>with\<close> block raised an exception below \<open>Exception\<close>.\<close>

definition failed :: "(exn + 'a) \<times> 'w \<Rightarrow> bool" where
  "failed r = (case fst r of Inl e \<Rightarrow> is_Exception e | Inr v \<Rightarrow> False)"




text \<open>
  Ascending order of ids (integers, as the engine assigns them): on rows, by the first
  column; on the dictionaries returned, by the key \<open>id\<close>.
\<close>

fun id_le :: "pyval \<Rightarrow> pyval \<Rightarrow> bool" where
  "id_le (PInt a) (PInt b) = (a \<le> b)"
| "id_le x y = False"

definition ascending_rows :: "row list \<Rightarrow> bool" where
  "ascending_rows rs =
     sorted_wrt (\<lambda>a b. case (a, b) of (x # xs, y # ys) \<Rightarrow> id_le x y | other \<Rightarrow> False) rs"

definition ascending_ids :: "params list \<Rightarrow> bool" where
  "ascending_ids users =
     sorted_wrt (\<lambda>u v. case (map_of u ''id'', map_of v ''id'') of
                          (Some x, Some y) \<Rightarrow> id_le x y | other \<Rightarrow> False) users"

text \<open>
  The contract of the engine for \<open>ORDER BY id\<close>: the rows of the result of a statement
  whose text ends in \<open>ORDER BY id\<close> ascend by id.
\<close>

definition honours_order_by_id :: "'db driver \<Rightarrow> bool" where
  "honours_order_by_id d =
     (\<forall>q ps s result s'.
        suffix ''ORDER BY id'' q \<and> conn_execute d q ps s = (Inr result, s') \<longrightarrow>
        ascending_rows (rows result))"

text \<open>The statements sent to the engine, in order: text and bound parameters.\<close>

fun statements :: "event list \<Rightarrow> (string \<times> params) list" where
  "statements [] = []"
| "statements (EExecute q ps # es) = (q, ps) # statements es"
| "statements (ev # es) = statements es"

text \<open>An outcome that \<open>except SQLAlchemyError\<close> absorbs or lets through as a value.\<close>

fun no_foreign_exception :: "exn + 'a \<Rightarrow> bool" where
  "no_foreign_exception (Inl (SQLAlchemyError m)) = True"
| "no_foreign_exception (Inl e) = False"
| "no_foreign_exception (Inr v) = True"

text \<open>
  The assignment list that \<open>update_fields\<close> builds for a pattern of supplied fields
  (\<open>nombre\<close>, \<open>email\<close>, \<open>edad\<close>); it enumerates the eight statement texts.
\<close>

definition assignments :: "bool \<Rightarrow> bool \<Rightarrow> bool \<Rightarrow> string list" where
  "assignments b1 b2 b3 =
     (if b1 then [''nombre = :nombre''] else []) @
     (if b2 then [''email = :email''] else []) @ (if b3 then [''edad = :edad''] else [])"

section \<open>Auxiliary facts\<close>

lemmas io_defs = call_def returns_def and_then_def lift_def get_connection_def
  except_SQLAlchemyError_def trace_of_def raised_def

lemmas stub_defs = stub_driver_def ok_def new_world_def


lemma trace_call [simp]: "trace_of (call ev f w) = snd w @ [ev]"
  by (simp add: trace_of_def call_def split: prod.splits)

lemma get_connection_acquired:
  assumes "engine_connect d s = (Inr u, s1)"
  shows "trace_of (get_connection d body (s, tr)) =
         trace_of (body (s1, tr @ [EConnect])) @
           (if failed (body (s1, tr @ [EConnect])) then [ERollback, EClose] else [EClose])"
  using assms
  by (auto simp: get_connection_def call_def trace_of_def failed_def split: prod.splits sum.splits)




lemma state_except [simp]: "state_of (except_SQLAlchemyError v r) = state_of r"
  by (auto simp: except_SQLAlchemyError_def state_of_def split: prod.splits sum.splits exn.splits)


lemma get_connection_refused:
  assumes "engine_connect d s = (Inl e, s1)"
  shows "get_connection d body (s, tr) = (Inl e, (s1, tr @ [EConnect]))"
  using assms
  by (auto simp: get_connection_def call_def split: prod.splits sum.splits)

lemma trace_except [simp]: "trace_of (except_SQLAlchemyError v r) = trace_of r"
  by (auto simp: except_SQLAlchemyError_def trace_of_def split: prod.splits sum.splits exn.splits)


lemma row_get_in_range: "i < n \<Longrightarrow> n \<le> length r \<Longrightarrow> row_get r i = Inr (r ! i)"
  unfolding row_get_def by (simp del: length_greater_0_conv)

lemma user_data_four:
  "4 \<le> length r \<Longrightarrow>
   user_data r = Inr [(''id'', r ! 0), (''nombre'', r ! 1), (''email'', r ! 2), (''edad'', r ! 3)]"
  by (simp add: user_data_def row_get_in_range [where n = 4])

lemma collect_users_acc:
  "\<forall>r \<in> set rs. 4 \<le> length r \<Longrightarrow>
   collect_users rs acc =
     Inr (acc @ map (\<lambda>r. [(''id'', r ! 0), (''nombre'', r ! 1), (''email'', r ! 2), (''edad'', r ! 3)]) rs)"
  by (induction rs arbitrary: acc) (simp_all add: user_data_four)

lemma write_ok:
  assumes "engine_connect d s = (Inr u, s1)"
      and "conn_execute d q ps s1 = (Inr result, s2)"
      and "conn_commit d s2 = (Inr u2, s3)"
      and "conn_close d s3 = (Inr u3, s4)"
  shows "except_SQLAlchemyError False (get_connection d (write_body d q ps) (s, tr)) =
           (Inr (0 < rowcount result), (s4, tr @ [EConnect, EExecute q ps, ECommit, EClose]))"
  using assms
  by (auto simp: write_body_def io_defs)

lemma execute_failure_absorbed:
  assumes "engine_connect d s = (Inr u, s1)"
      and "fst (conn_execute d q ps s1) = Inl (SQLAlchemyError m)"
      and "\<And>t. no_foreign_exception (fst (conn_rollback d t))"
      and "\<And>t. no_foreign_exception (fst (conn_close d t))"
  shows "fst (except_SQLAlchemyError dflt
           (get_connection d (and_then (call (EExecute q ps) (conn_execute d q ps)) f) (s, tr))) = Inr dflt"
proof -
  obtain s2 where ex: "conn_execute d q ps s1 = (Inl (SQLAlchemyError m), s2)"
    using assms(2) by (cases "conn_execute d q ps s1") simp
  obtain r3 s3 where rb: "conn_rollback d s2 = (r3, s3)" by (cases "conn_rollback d s2")
  obtain r4 s4 where cl: "conn_close d s3 = (r4, s4)" by (cases "conn_close d s3")
  have n3: "no_foreign_exception r3" using assms(3) [of s2] rb by simp
  have n4: "no_foreign_exception r4" using assms(4) [of s3] cl by simp
  show ?thesis
    using assms(1) ex rb cl n3 n4
    by (cases r3; cases r4) (auto simp: io_defs split: exn.splits elim: no_foreign_exception.elims)
qed

lemma read_returns:
  assumes "engine_connect d s = (Inr u, s1)"
      and "fst (conn_execute d q ps s1) = Inr c"
      and "\<And>t. \<exists>v t'. conn_close d t = (Inr v, t')"
      and "\<And>w. f c w = (Inr v, w)"
  shows "fst (except_SQLAlchemyError dflt
           (get_connection d (and_then (call (EExecute q ps) (conn_execute d q ps)) f) (s, tr))) = Inr v"
proof -
  obtain s2 where x: "conn_execute d q ps s1 = (Inr c, s2)"
    using assms(2) by (cases "conn_execute d q ps s1") simp
  obtain v4 s4 where l: "conn_close d s2 = (Inr v4, s4)" using assms(3) by blast
  show ?thesis using assms(1) x l assms(4) by (auto simp: io_defs)
qed

section \<open>The connection is released on every exit path\<close>




section \<open>update\_user with no field\<close>

text \<open>
  Claim C2, as amended. With \<open>nombre\<close>, \<open>email\<close> and \<open>edad\<close> all \<open>None\<close>, \<open>update_user\<close>
  returns \<open>False\<close> and leaves the engine state and the record of driver calls as they
  were: no connection is opened and no statement is sent. It returns a value; it does
  not raise.
\<close>

theorem update_user_empty_returns_False:
  "update_user d user_id PNone PNone PNone w = (Inr False, w)"
  by (simp add: update_user_def update_fields_def)

text \<open>
  The claim as stated (the call fails with an \<open>InvalidArgument\<close> error) does not hold:
  on a driver whose calls would all succeed, the call returns the value \<open>False\<close>.
\<close>

theorem update_user_empty_not_an_error:
  "update_user (stub_driver ok (Inr \<lparr>rows = [], rowcount = 1\<rparr>) ok ok ok)
      (PInt 1) PNone PNone PNone new_world = (Inr False, new_world) \<and>
   \<not> raised (update_user (stub_driver ok (Inr \<lparr>rows = [], rowcount = 1\<rparr>) ok ok ok)
      (PInt 1) PNone PNone PNone new_world)"
  by (simp add: update_user_def update_fields_def raised_def)

section \<open>create\_user when the statement fails\<close>

text \<open>
  Claim C5, as amended. When \<open>conn.execute\<close> raises in \<open>create_user\<close>, \<open>commit\<close> is never
  called. When the exception is below \<open>Exception\<close> the run is \<open>connect\<close>, \<open>execute\<close>,
  \<open>rollback\<close>, \<open>close\<close>: the transaction is rolled back before the connection is
  closed; and when that rollback and that close return, \<open>create_user\<close> returns \<open>None\<close>
  for an \<open>SQLAlchemyError\<close> (the cause is not part of the returned value) and lets any
  other exception propagate. When the exception is outside \<open>Exception\<close> the run is
  \<open>connect\<close>, \<open>execute\<close>, \<open>close\<close>.
\<close>

theorem create_user_execute_failure:
  assumes "engine_connect d s = (Inr u, s1)"
      and "conn_execute d insert_sql [(''nombre'', nombre), (''email'', email), (''edad'', edad)] s1
             = (Inl e, s2)"
  shows "trace_of (create_user d nombre email edad (s, tr)) =
           tr @ [EConnect,
                 EExecute insert_sql [(''nombre'', nombre), (''email'', email), (''edad'', edad)]] @
                (if is_Exception e then [ERollback, EClose] else [EClose]) \<and>
         (is_Exception e \<and> conn_rollback d s2 = (Inr u2, s3) \<and> conn_close d s3 = (Inr u3, s4) \<longrightarrow>
          create_user d nombre email edad (s, tr) =
            ((case e of SQLAlchemyError m \<Rightarrow> Inr PNone | _ \<Rightarrow> Inl e),
             (s4, tr @ [EConnect,
                        EExecute insert_sql
                          [(''nombre'', nombre), (''email'', email), (''edad'', edad)],
                        ERollback, EClose])))"
proof -
  have b: "create_user_body d nombre email edad (s1, tr @ [EConnect]) =
      (Inl e, (s2, tr @ [EConnect,
         EExecute insert_sql [(''nombre'', nombre), (''email'', email), (''edad'', edad)]]))"
    using assms(2) by (simp add: create_user_body_def Let_def and_then_def call_def)
  have t: "trace_of (create_user d nombre email edad (s, tr)) =
           tr @ [EConnect,
                 EExecute insert_sql [(''nombre'', nombre), (''email'', email), (''edad'', edad)]] @
                (if is_Exception e then [ERollback, EClose] else [EClose])"
    unfolding create_user_def trace_except get_connection_acquired [OF assms(1)] b
    by (simp add: failed_def trace_of_def)
  have v: "create_user d nombre email edad (s, tr) =
            ((case e of SQLAlchemyError m \<Rightarrow> Inr PNone | _ \<Rightarrow> Inl e),
             (s4, tr @ [EConnect,
                        EExecute insert_sql
                          [(''nombre'', nombre), (''email'', email), (''edad'', edad)],
                        ERollback, EClose]))"
    if "is_Exception e" "conn_rollback d s2 = (Inr u2, s3)" "conn_close d s3 = (Inr u3, s4)"
    using that assms(1) b
    by (cases e) (simp_all add: create_user_def get_connection_def call_def
                    except_SQLAlchemyError_def)
  from t v show ?thesis by (intro conjI impI) (erule conjE | assumption)+
qed

theorem create_user_execute_failure_witness:
  "create_user (stub_driver ok (Inl (SQLAlchemyError ''duplicate key'')) ok ok ok)
      (PStr ''Ana'') (PStr ''ana@email.com'') (PInt 30) new_world =
     (Inr PNone,
      ((), [EConnect,
            EExecute insert_sql
              [(''nombre'', PStr ''Ana''), (''email'', PStr ''ana@email.com''), (''edad'', PInt 30)],
            ERollback, EClose])) \<and>
   create_user (stub_driver ok (Inl (OtherException ''not a mapping'')) ok ok ok)
      (PStr ''Ana'') (PStr ''ana@email.com'') (PInt 30) new_world =
     (Inl (OtherException ''not a mapping''),
      ((), [EConnect,
            EExecute insert_sql
              [(''nombre'', PStr ''Ana''), (''email'', PStr ''ana@email.com''), (''edad'', PInt 30)],
            ERollback, EClose]))"
proof -
  have h: "engine_connect (stub_driver ok x ok ok ok) () = (Inr (), ())" for x
    by (simp add: stub_defs)
  have x: "conn_execute (stub_driver ok (Inl e) ok ok ok) insert_sql
             [(''nombre'', PStr ''Ana''), (''email'', PStr ''ana@email.com''), (''edad'', PInt 30)] ()
             = (Inl e, ())" for e
    by (simp add: stub_defs)
  show ?thesis
    using create_user_execute_failure [OF h x [of "SQLAlchemyError ''duplicate key''"],
            where tr = "[]" and ?u2.0 = "()" and ?s3.0 = "()" and ?u3.0 = "()" and ?s4.0 = "()"]
          create_user_execute_failure [OF h x [of "OtherException ''not a mapping''"],
            where tr = "[]" and ?u2.0 = "()" and ?s3.0 = "()" and ?u3.0 = "()" and ?s4.0 = "()"]
    by (simp add: stub_defs)
qed

text \<open>
  The claim as stated (an \<open>ExecutionError\<close> carrying the cause is returned) does not
  hold: the statement fails with \<open>duplicate key\<close> and the caller receives \<open>None\<close>.
\<close>

theorem create_user_failure_returns_None:
  "create_user (stub_driver ok (Inl (SQLAlchemyError ''duplicate key'')) ok ok ok)
      (PStr ''Ana'') (PStr ''ana@email.com'') (PInt 30) new_world =
     (Inr PNone, ((), [EConnect,
        EExecute insert_sql
          [(''nombre'', PStr ''Ana''), (''email'', PStr ''ana@email.com''), (''edad'', PInt 30)],
        ERollback, EClose]))"
  by (simp add: create_user_def create_user_body_def io_defs Let_def stub_defs)

section \<open>read\_all\_users\<close>

lemma select_all_sql_order_by: "suffix ''ORDER BY id'' select_all_sql"
  by code_simp

lemma ascending_ids_of_rows:
  assumes "\<forall>r \<in> set rs. 4 \<le> length r" and "ascending_rows rs"
  shows "ascending_ids
           (map (\<lambda>r. [(''id'', r ! 0), (''nombre'', r ! 1), (''email'', r ! 2), (''edad'', r ! 3)]) rs)"
  unfolding ascending_ids_def sorted_wrt_map
  using assms(2) unfolding ascending_rows_def
  by (rule sorted_wrt_mono_rel [rotated]) (auto split: list.splits)

text \<open>
  Claim C6. \<open>read_all_users\<close> sends the statement
  \<open>SELECT id, nombre, email, edad FROM users ORDER BY id\<close>, with no parameter, and
  returns one dictionary for each row of the result, in the order in which the engine
  produced the rows: a list, built in full before the connection is closed and the call
  returns. When the result has no row the value is the empty list, not an error. On an
  engine that answers \<open>ORDER BY id\<close> with rows in ascending order of id, the list
  returned ascends by \<open>id\<close>: the code asks for the order and keeps it. Each row is taken
  to have the four columns the statement selects.
\<close>

theorem read_all_users_in_engine_order:
  assumes "engine_connect d s = (Inr u, s1)"
      and "conn_execute d ''SELECT id, nombre, email, edad FROM users ORDER BY id'' [] s1
             = (Inr result, s2)"
      and "conn_close d s2 = (Inr u3, s3)"
      and "\<forall>r \<in> set (rows result). 4 \<le> length r"
  shows "read_all_users d (s, tr) =
           (Inr (map (\<lambda>r. [(''id'', r ! 0), (''nombre'', r ! 1), (''email'', r ! 2), (''edad'', r ! 3)])
                   (rows result)),
            (s3, tr @ [EConnect,
                       EExecute ''SELECT id, nombre, email, edad FROM users ORDER BY id'' [],
                       EClose])) \<and>
         (honours_order_by_id d \<longrightarrow>
          (\<exists>users. fst (read_all_users d (s, tr)) = Inr users \<and>
             length users = length (rows result) \<and> ascending_ids users))"
proof -
  have x: "conn_execute d select_all_sql [] s1 = (Inr result, s2)"
    using assms(2) by (simp add: select_all_sql_def)
  have 1: "read_all_users d (s, tr) =
           (Inr (map (\<lambda>r. [(''id'', r ! 0), (''nombre'', r ! 1), (''email'', r ! 2), (''edad'', r ! 3)])
                   (rows result)),
            (s3, tr @ [EConnect,
                       EExecute ''SELECT id, nombre, email, edad FROM users ORDER BY id'' [],
                       EClose]))"
    using assms(1) x assms(3) assms(4)
    by (auto simp: read_all_users_def read_all_users_body_def io_defs collect_users_acc)
       (simp add: select_all_sql_def)
  have 2: "\<exists>users. fst (read_all_users d (s, tr)) = Inr users \<and>
             length users = length (rows result) \<and> ascending_ids users"
    if h: "honours_order_by_id d"
  proof -
    from h select_all_sql_order_by x have "ascending_rows (rows result)"
      unfolding honours_order_by_id_def by blast
    from ascending_ids_of_rows [OF assms(4) this] show ?thesis
      unfolding 1 by simp
  qed
  from 1 2 show ?thesis by (intro conjI impI)
qed

theorem read_all_users_in_engine_order_witness:
  "read_all_users
     (stub_driver ok
        (Inr \<lparr>rows = [[PInt 2, PStr ''Maria'', PStr ''maria@email.com'', PInt 26],
                      [PInt 3, PStr ''Carlos'', PStr ''carlos@email.com'', PNone]],
              rowcount = 2\<rparr>) ok ok ok) new_world =
     (Inr [[(''id'', PInt 2), (''nombre'', PStr ''Maria''), (''email'', PStr ''maria@email.com''),
            (''edad'', PInt 26)],
           [(''id'', PInt 3), (''nombre'', PStr ''Carlos''), (''email'', PStr ''carlos@email.com''),
            (''edad'', PNone)]],
      ((), [EConnect, EExecute ''SELECT id, nombre, email, edad FROM users ORDER BY id'' [],
            EClose])) \<and>
   ascending_ids
     [[(''id'', PInt 2), (''nombre'', PStr ''Maria''), (''email'', PStr ''maria@email.com''),
       (''edad'', PInt 26)],
      [(''id'', PInt 3), (''nombre'', PStr ''Carlos''), (''email'', PStr ''carlos@email.com''),
       (''edad'', PNone)]] \<and>
   read_all_users (stub_driver ok (Inr \<lparr>rows = [], rowcount = 0\<rparr>) ok ok ok) new_world =
     (Inr [], ((), [EConnect,
                    EExecute ''SELECT id, nombre, email, edad FROM users ORDER BY id'' [],
                    EClose]))"
proof -
  let ?two = "\<lparr>rows = [[PInt 2, PStr ''Maria'', PStr ''maria@email.com'', PInt 26],
                        [PInt 3, PStr ''Carlos'', PStr ''carlos@email.com'', PNone]],
                rowcount = 2\<rparr>"
  let ?none = "\<lparr>rows = [], rowcount = 0\<rparr>"
  have h: "engine_connect (stub_driver ok e ok ok ok) () = (Inr (), ())" for e
    by (simp add: stub_defs)
  have x: "conn_execute (stub_driver ok (Inr c) ok ok ok)
             ''SELECT id, nombre, email, edad FROM users ORDER BY id'' [] () = (Inr c, ())" for c
    by (simp add: stub_defs)
  have c: "conn_close (stub_driver ok e ok ok ok) () = (Inr (), ())" for e
    by (simp add: stub_defs)
  have a: "\<forall>r \<in> set (rows ?two). 4 \<le> length r"
    by simp
  have b: "\<forall>r \<in> set (rows ?none). 4 \<le> length r"
    by simp
  have o: "honours_order_by_id (stub_driver ok (Inr ?two) ok ok ok)"
    by (auto simp: honours_order_by_id_def stub_defs ascending_rows_def)
  note T1 = read_all_users_in_engine_order [OF h x c a, where tr = "[]"]
  note T2 = read_all_users_in_engine_order [OF h x c b, where tr = "[]"]
  from T1 have e1: "read_all_users (stub_driver ok (Inr ?two) ok ok ok) ((), []) =
      (Inr [[(''id'', PInt 2), (''nombre'', PStr ''Maria''), (''email'', PStr ''maria@email.com''),
            (''edad'', PInt 26)],
           [(''id'', PInt 3), (''nombre'', PStr ''Carlos''), (''email'', PStr ''carlos@email.com''),
            (''edad'', PNone)]],
      ((), [EConnect, EExecute ''SELECT id, nombre, email, edad FROM users ORDER BY id'' [],
            EClose]))"
    by simp
  from T1 o obtain users where u: "fst (read_all_users (stub_driver ok (Inr ?two) ok ok ok) ((), []))
      = Inr users" "ascending_ids users"
    by blast
  from u e1 have e2: "ascending_ids
     [[(''id'', PInt 2), (''nombre'', PStr ''Maria''), (''email'', PStr ''maria@email.com''),
       (''edad'', PInt 26)],
      [(''id'', PInt 3), (''nombre'', PStr ''Carlos''), (''email'', PStr ''carlos@email.com''),
       (''edad'', PNone)]]"
    by simp
  from T2 have e3: "read_all_users (stub_driver ok (Inr ?none) ok ok ok) ((), []) =
     (Inr [], ((), [EConnect,
                    EExecute ''SELECT id, nombre, email, edad FROM users ORDER BY id'' [],
                    EClose]))"
    by simp
  from e1 e2 e3 show ?thesis by (simp only: new_world_def simp_thms)
qed

section \<open>update\_user and delete\_user report whether a row matched\<close>

text \<open>
  Claim C4. When the connection is acquired and the statement, the commit and the close
  all return, \<open>update_user\<close> (with at least one field) and \<open>delete_user\<close> return \<open>True\<close>
  when the \<open>rowcount\<close> the engine reports is positive and \<open>False\<close> when it is zero. Both
  are normal returns on the path \<open>connect\<close>, \<open>execute\<close>, \<open>commit\<close>, \<open>close\<close>: an id that
  matches no row gives \<open>False\<close>, with no exception and no rollback.
\<close>

theorem update_delete_report_rowcount:
  "(update_fields user_id nombre email edad = (updates, ps) \<and> updates \<noteq> [] \<and>
    engine_connect d s = (Inr u, s1) \<and>
    conn_execute d (update_sql updates) ps s1 = (Inr result, s2) \<and>
    conn_commit d s2 = (Inr u2, s3) \<and>
    conn_close d s3 = (Inr u3, s4) \<longrightarrow>
    update_user d user_id nombre email edad (s, tr) =
      (Inr (0 < rowcount result),
       (s4, tr @ [EConnect, EExecute (update_sql updates) ps, ECommit, EClose]))) \<and>
   (engine_connect d s = (Inr u, s1) \<and>
    conn_execute d delete_sql [(''user_id'', user_id)] s1 = (Inr result', s2') \<and>
    conn_commit d s2' = (Inr u2', s3') \<and>
    conn_close d s3' = (Inr u3', s4') \<longrightarrow>
    delete_user d user_id (s, tr) =
      (Inr (0 < rowcount result'),
       (s4', tr @ [EConnect, EExecute delete_sql [(''user_id'', user_id)], ECommit, EClose])))"
proof -
  have up: "update_user d user_id nombre email edad (s, tr) =
      (Inr (0 < rowcount result),
       (s4, tr @ [EConnect, EExecute (update_sql updates) ps, ECommit, EClose]))"
    if "update_fields user_id nombre email edad = (updates, ps)" "updates \<noteq> []"
       "engine_connect d s = (Inr u, s1)"
       "conn_execute d (update_sql updates) ps s1 = (Inr result, s2)"
       "conn_commit d s2 = (Inr u2, s3)" "conn_close d s3 = (Inr u3, s4)"
    using that by (simp add: update_user_def write_ok)
  have de: "delete_user d user_id (s, tr) =
      (Inr (0 < rowcount result'),
       (s4', tr @ [EConnect, EExecute delete_sql [(''user_id'', user_id)], ECommit, EClose]))"
    if "engine_connect d s = (Inr u, s1)"
       "conn_execute d delete_sql [(''user_id'', user_id)] s1 = (Inr result', s2')"
       "conn_commit d s2' = (Inr u2', s3')" "conn_close d s3' = (Inr u3', s4')"
    using that by (simp add: delete_user_def write_ok)
  from up de show ?thesis by blast
qed

theorem update_delete_report_rowcount_witness:
  "update_user (stub_driver ok (Inr \<lparr>rows = [], rowcount = 1\<rparr>) ok ok ok)
      (PInt 2) (PStr ''Maria'') PNone (PInt 26) new_world =
     (Inr True,
      ((), [EConnect,
            EExecute (update_sql [''nombre = :nombre'', ''edad = :edad''])
              [(''user_id'', PInt 2), (''nombre'', PStr ''Maria''), (''edad'', PInt 26)],
            ECommit, EClose])) \<and>
   delete_user (stub_driver ok (Inr \<lparr>rows = [], rowcount = 0\<rparr>) ok ok ok) (PInt 99) new_world =
     (Inr False, ((), [EConnect, EExecute delete_sql [(''user_id'', PInt 99)], ECommit, EClose]))"
  using update_delete_report_rowcount
          [where d = "stub_driver ok (Inr \<lparr>rows = [], rowcount = 1\<rparr>) ok ok ok"
             and user_id = "PInt 2" and nombre = "PStr ''Maria''" and email = PNone
             and edad = "PInt 26" and updates = "[''nombre = :nombre'', ''edad = :edad'']"
             and ps = "[(''user_id'', PInt 2), (''nombre'', PStr ''Maria''), (''edad'', PInt 26)]"
             and s = "()" and ?s1.0 = "()" and ?s2.0 = "()" and ?s3.0 = "()" and ?s4.0 = "()"
             and u = "()" and ?u2.0 = "()" and ?u3.0 = "()" and tr = "[]"
             and result = "\<lparr>rows = [], rowcount = 1\<rparr>"]
        update_delete_report_rowcount
          [where d = "stub_driver ok (Inr \<lparr>rows = [], rowcount = 0\<rparr>) ok ok ok"
             and user_id = "PInt 99"
             and s = "()" and ?s1.0 = "()" and ?s2'.0 = "()" and ?s3'.0 = "()" and ?s4'.0 = "()"
             and u = "()" and ?u2'.0 = "()" and ?u3'.0 = "()" and tr = "[]"
             and result' = "\<lparr>rows = [], rowcount = 0\<rparr>"]
  by (simp add: stub_defs update_fields_def)

section \<open>read\_user\<close>

text \<open>
  Claim C7, as amended. When the statement and the close return, \<open>read_user\<close> maps the
  first row of the result (of the four selected columns) to a dictionary with the keys
  \<open>id\<close>, \<open>nombre\<close>, \<open>email\<close> and \<open>edad\<close>, and returns \<open>None\<close> when the result has no row:
  a normal return, with no exception and no rollback. That value is not distinct from
  the outcome of a failure: when the statement raises an \<open>SQLAlchemyError\<close>, and the
  rollback and the close that follow return, \<open>read_user\<close> returns \<open>None\<close> as well.
\<close>

theorem read_user_row_or_None:
  assumes "engine_connect d s = (Inr u, s1)"
  shows "(conn_execute d select_one_sql [(''user_id'', user_id)] s1 = (Inr result, s2) \<and>
          conn_close d s2 = (Inr u3, s3) \<and> rows result = r # rest \<and> 4 \<le> length r \<longrightarrow>
          read_user d user_id (s, tr) =
            (Inr (Some [(''id'', r ! 0), (''nombre'', r ! 1), (''email'', r ! 2), (''edad'', r ! 3)]),
             (s3, tr @ [EConnect, EExecute select_one_sql [(''user_id'', user_id)], EClose]))) \<and>
         (conn_execute d select_one_sql [(''user_id'', user_id)] s1 = (Inr result, s2) \<and>
          conn_close d s2 = (Inr u3, s3) \<and> rows result = [] \<longrightarrow>
          read_user d user_id (s, tr) =
            (Inr None,
             (s3, tr @ [EConnect, EExecute select_one_sql [(''user_id'', user_id)], EClose]))) \<and>
         (conn_execute d select_one_sql [(''user_id'', user_id)] s1 = (Inl (SQLAlchemyError m), s2) \<and>
          conn_rollback d s2 = (Inr u2, s3) \<and> conn_close d s3 = (Inr u3, s4) \<longrightarrow>
          read_user d user_id (s, tr) =
            (Inr None,
             (s4, tr @ [EConnect, EExecute select_one_sql [(''user_id'', user_id)],
                        ERollback, EClose])))"
  using assms
  by (auto simp: read_user_def read_user_body_def Let_def io_defs fetchone_def truthy_def user_data_four)

theorem read_user_row_or_None_witness:
  "read_user (stub_driver ok
       (Inr \<lparr>rows = [[PInt 2, PStr ''Maria'', PStr ''maria@email.com'', PInt 26]], rowcount = 1\<rparr>)
       ok ok ok) (PInt 2) new_world =
     (Inr (Some [(''id'', PInt 2), (''nombre'', PStr ''Maria''), (''email'', PStr ''maria@email.com''),
                 (''edad'', PInt 26)]),
      ((), [EConnect, EExecute select_one_sql [(''user_id'', PInt 2)], EClose])) \<and>
   read_user (stub_driver ok (Inr \<lparr>rows = [], rowcount = 0\<rparr>) ok ok ok) (PInt 7) new_world =
     (Inr None, ((), [EConnect, EExecute select_one_sql [(''user_id'', PInt 7)], EClose])) \<and>
   read_user (stub_driver ok (Inl (SQLAlchemyError ''connection lost'')) ok ok ok) (PInt 7) new_world =
     (Inr None,
      ((), [EConnect, EExecute select_one_sql [(''user_id'', PInt 7)], ERollback, EClose]))"
proof -
  have h: "engine_connect (stub_driver ok e ok ok ok) () = (Inr (), ())" for e
    by (simp add: stub_defs)
  show ?thesis
    using read_user_row_or_None
            [OF h, where user_id = "PInt 2" and tr = "[]" and ?s2.0 = "()" and ?s3.0 = "()"
               and ?u3.0 = "()"
               and result = "\<lparr>rows = [[PInt 2, PStr ''Maria'', PStr ''maria@email.com'', PInt 26]],
                               rowcount = 1\<rparr>"
               and r = "[PInt 2, PStr ''Maria'', PStr ''maria@email.com'', PInt 26]" and rest = "[]"
               and e1 = "Inr \<lparr>rows = [[PInt 2, PStr ''Maria'', PStr ''maria@email.com'', PInt 26]],
                               rowcount = 1\<rparr>"]
          read_user_row_or_None
            [OF h, where user_id = "PInt 7" and tr = "[]" and ?s2.0 = "()" and ?s3.0 = "()"
               and ?u3.0 = "()" and result = "\<lparr>rows = [], rowcount = 0\<rparr>"
               and e1 = "Inr \<lparr>rows = [], rowcount = 0\<rparr>"]
          read_user_row_or_None
            [OF h, where user_id = "PInt 7" and tr = "[]" and ?s2.0 = "()" and ?s3.0 = "()"
               and ?s4.0 = "()" and ?u2.0 = "()" and ?u3.0 = "()" and m = "''connection lost''"
               and e1 = "Inl (SQLAlchemyError ''connection lost'')"]
    by (simp add: stub_defs)
qed

text \<open>
  The claim as stated (not found is an outcome distinct from the error channel) does not
  hold: for the same id, a result with no row and a statement that fails give the caller
  the same value.
\<close>

theorem read_user_not_found_same_as_failure:
  "fst (read_user (stub_driver ok (Inr \<lparr>rows = [], rowcount = 0\<rparr>) ok ok ok) (PInt 7) new_world) =
   fst (read_user (stub_driver ok (Inl (SQLAlchemyError ''connection lost'')) ok ok ok)
          (PInt 7) new_world)"
  by (simp add: read_user_def read_user_body_def Let_def io_defs fetchone_def stub_defs)

section \<open>test\_connection\<close>










section \<open>An execution failure returns the value of the no-match outcome\<close>

text \<open>
  Claim C10. Let the statement of an operation raise an \<open>SQLAlchemyError\<close> on a driver
  \<open>d\<close> whose \<open>rollback\<close> and \<open>close\<close> raise nothing but \<open>SQLAlchemyError\<close>: then
  \<open>create_user\<close> returns \<open>None\<close>, \<open>read_user\<close> returns \<open>None\<close>, \<open>read_all_users\<close>
  returns the empty list, and \<open>update_user\<close> and \<open>delete_user\<close> return \<open>False\<close>. On a
  driver \<open>d'\<close> whose calls return, where the same statement finds no row (an empty
  result, a \<open>rowcount\<close> of zero), \<open>read_user\<close>, \<open>read_all_users\<close>, \<open>update_user\<close> and
  \<open>delete_user\<close> return these same values: the returned value alone does not tell the
  caller which of the two happened.
\<close>

theorem execution_failure_returns_no_match_value:
  assumes "engine_connect d s = (Inr u, s1)"
      and "\<And>t. no_foreign_exception (fst (conn_rollback d t))"
      and "\<And>t. no_foreign_exception (fst (conn_close d t))"
      and "engine_connect d' s' = (Inr u', s1')"
      and "\<And>t. \<exists>v t'. conn_commit d' t = (Inr v, t')"
      and "\<And>t. \<exists>v t'. conn_close d' t = (Inr v, t')"
  shows "(fst (conn_execute d insert_sql [(''nombre'', nombre), (''email'', email), (''edad'', edad)] s1)
            = Inl (SQLAlchemyError m) \<longrightarrow>
          fst (create_user d nombre email edad (s, tr)) = Inr PNone) \<and>
         (fst (conn_execute d select_one_sql [(''user_id'', user_id)] s1) = Inl (SQLAlchemyError m) \<and>
          fst (conn_execute d' select_one_sql [(''user_id'', user_id)] s1')
            = Inr \<lparr>rows = [], rowcount = n\<rparr> \<longrightarrow>
          fst (read_user d user_id (s, tr)) = Inr None \<and>
          fst (read_user d' user_id (s', tr')) = Inr None) \<and>
         (fst (conn_execute d select_all_sql [] s1) = Inl (SQLAlchemyError m) \<and>
          fst (conn_execute d' select_all_sql [] s1') = Inr \<lparr>rows = [], rowcount = n\<rparr> \<longrightarrow>
          fst (read_all_users d (s, tr)) = Inr [] \<and>
          fst (read_all_users d' (s', tr')) = Inr []) \<and>
         (fst (conn_execute d (update_sql (fst (update_fields user_id nombre email edad)))
                 (snd (update_fields user_id nombre email edad)) s1) = Inl (SQLAlchemyError m) \<and>
          fst (conn_execute d' (update_sql (fst (update_fields user_id nombre email edad)))
                 (snd (update_fields user_id nombre email edad)) s1') = Inr \<lparr>rows = rs, rowcount = 0\<rparr> \<longrightarrow>
          fst (update_user d user_id nombre email edad (s, tr)) = Inr False \<and>
          fst (update_user d' user_id nombre email edad (s', tr')) = Inr False) \<and>
         (fst (conn_execute d delete_sql [(''user_id'', user_id)] s1) = Inl (SQLAlchemyError m) \<and>
          fst (conn_execute d' delete_sql [(''user_id'', user_id)] s1') = Inr \<lparr>rows = rs, rowcount = 0\<rparr> \<longrightarrow>
          fst (delete_user d user_id (s, tr)) = Inr False \<and>
          fst (delete_user d' user_id (s', tr')) = Inr False)"
proof -
  note fail = execute_failure_absorbed [OF assms(1) _ assms(2) assms(3)]
  have ok_write: "fst (except_SQLAlchemyError False (get_connection d' (write_body d' q ps) (s', tr'))) = Inr False"
    if h: "fst (conn_execute d' q ps s1') = Inr \<lparr>rows = rs, rowcount = 0\<rparr>" for q ps
  proof -
    obtain s2 where x: "conn_execute d' q ps s1' = (Inr \<lparr>rows = rs, rowcount = 0\<rparr>, s2)"
      using h by (cases "conn_execute d' q ps s1'") simp
    obtain v3 s3 where c: "conn_commit d' s2 = (Inr v3, s3)" using assms(5) by blast
    obtain v4 s4 where l: "conn_close d' s3 = (Inr v4, s4)" using assms(6) by blast
    show ?thesis using write_ok [OF assms(4) x c l] by simp
  qed
  note ok_read = read_returns [OF assms(4) _ assms(6)]
  have fail_write: "fst (except_SQLAlchemyError False (get_connection d (write_body d q ps) (s, tr)))
      = Inr False"
    if h: "fst (conn_execute d q ps s1) = Inl (SQLAlchemyError m)" for q ps
    unfolding write_body_def by (rule fail [OF h])
  have f1: "fst (create_user d nombre email edad (s, tr)) = Inr PNone"
    if "fst (conn_execute d insert_sql [(''nombre'', nombre), (''email'', email), (''edad'', edad)] s1)
            = Inl (SQLAlchemyError m)"
    using fail [OF that] by (simp add: create_user_def create_user_body_def Let_def)
  have f2: "fst (read_user d user_id (s, tr)) = Inr None"
    if "fst (conn_execute d select_one_sql [(''user_id'', user_id)] s1) = Inl (SQLAlchemyError m)"
    using fail [OF that] by (simp add: read_user_def read_user_body_def Let_def)
  have n2: "fst (read_user d' user_id (s', tr')) = Inr None"
    if "fst (conn_execute d' select_one_sql [(''user_id'', user_id)] s1')
            = Inr \<lparr>rows = [], rowcount = n\<rparr>"
    unfolding read_user_def read_user_body_def Let_def
    by (rule ok_read [OF that]) (simp add: fetchone_def returns_def)
  have f3: "fst (read_all_users d (s, tr)) = Inr []"
    if "fst (conn_execute d select_all_sql [] s1) = Inl (SQLAlchemyError m)"
    using fail [OF that] by (simp add: read_all_users_def read_all_users_body_def)
  have n3: "fst (read_all_users d' (s', tr')) = Inr []"
    if "fst (conn_execute d' select_all_sql [] s1') = Inr \<lparr>rows = [], rowcount = n\<rparr>"
    unfolding read_all_users_def read_all_users_body_def
    by (rule ok_read [OF that]) (simp add: lift_def)
  have f4: "fst (update_user d user_id nombre email edad (s, tr)) = Inr False"
    if h: "fst (conn_execute d (update_sql (fst (update_fields user_id nombre email edad)))
                 (snd (update_fields user_id nombre email edad)) s1) = Inl (SQLAlchemyError m)"
  proof (cases "update_fields user_id nombre email edad")
    case (Pair a b)
    with h have "fst (conn_execute d (update_sql a) b s1) = Inl (SQLAlchemyError m)" by simp
    from fail_write [OF this] Pair show ?thesis by (simp add: update_user_def)
  qed
  have n4: "fst (update_user d' user_id nombre email edad (s', tr')) = Inr False"
    if h: "fst (conn_execute d' (update_sql (fst (update_fields user_id nombre email edad)))
                 (snd (update_fields user_id nombre email edad)) s1') = Inr \<lparr>rows = rs, rowcount = 0\<rparr>"
  proof (cases "update_fields user_id nombre email edad")
    case (Pair a b)
    with h have "fst (conn_execute d' (update_sql a) b s1') = Inr \<lparr>rows = rs, rowcount = 0\<rparr>"
      by simp
    from ok_write [OF this] Pair show ?thesis by (simp add: update_user_def)
  qed
  have f5: "fst (delete_user d user_id (s, tr)) = Inr False"
    if "fst (conn_execute d delete_sql [(''user_id'', user_id)] s1) = Inl (SQLAlchemyError m)"
    using fail_write [OF that] by (simp add: delete_user_def)
  have n5: "fst (delete_user d' user_id (s', tr')) = Inr False"
    if "fst (conn_execute d' delete_sql [(''user_id'', user_id)] s1') = Inr \<lparr>rows = rs, rowcount = 0\<rparr>"
    using ok_write [OF that] by (simp add: delete_user_def)
  from f1 f2 n2 f3 n3 f4 n4 f5 n5 show ?thesis by blast
qed

theorem execution_failure_returns_no_match_value_witness:
  "fst (create_user (stub_driver ok (Inl (SQLAlchemyError ''connection lost'')) ok ok ok)
          (PStr ''Ana'') (PStr ''ana@email.com'') (PInt 30) new_world) = Inr PNone \<and>
   fst (read_user (stub_driver ok (Inl (SQLAlchemyError ''connection lost'')) ok ok ok)
          (PInt 7) new_world) = Inr None \<and>
   fst (read_user (stub_driver ok (Inr \<lparr>rows = [], rowcount = 0\<rparr>) ok ok ok)
          (PInt 7) new_world) = Inr None \<and>
   fst (read_all_users (stub_driver ok (Inl (SQLAlchemyError ''connection lost'')) ok ok ok)
          new_world) = Inr [] \<and>
   fst (read_all_users (stub_driver ok (Inr \<lparr>rows = [], rowcount = 0\<rparr>) ok ok ok)
          new_world) = Inr [] \<and>
   fst (update_user (stub_driver ok (Inl (SQLAlchemyError ''connection lost'')) ok ok ok)
          (PInt 7) PNone PNone (PInt 31) new_world) = Inr False \<and>
   fst (update_user (stub_driver ok (Inr \<lparr>rows = [], rowcount = 0\<rparr>) ok ok ok)
          (PInt 7) PNone PNone (PInt 31) new_world) = Inr False \<and>
   fst (delete_user (stub_driver ok (Inl (SQLAlchemyError ''connection lost'')) ok ok ok)
          (PInt 7) new_world) = Inr False \<and>
   fst (delete_user (stub_driver ok (Inr \<lparr>rows = [], rowcount = 0\<rparr>) ok ok ok)
          (PInt 7) new_world) = Inr False"
proof -
  have c: "engine_connect (stub_driver ok e ok ok ok) () = (Inr (), ())" for e
    by (simp add: stub_defs)
  have r: "no_foreign_exception (fst (conn_rollback (stub_driver ok e ok ok ok) t))" for e t
    by (simp add: stub_defs)
  have l: "no_foreign_exception (fst (conn_close (stub_driver ok e ok ok ok) t))" for e t
    by (simp add: stub_defs)
  have m: "\<exists>v t'. conn_commit (stub_driver ok e ok ok ok) t = (Inr v, t')" for e t
    by (simp add: stub_defs)
  have x: "\<exists>v t'. conn_close (stub_driver ok e ok ok ok) t = (Inr v, t')" for e t
    by (simp add: stub_defs)
  show ?thesis
    using execution_failure_returns_no_match_value
            [OF c [of "Inl (SQLAlchemyError ''connection lost'')"] r l
                c [of "Inr \<lparr>rows = [], rowcount = 0\<rparr>"] m x,
             where tr = "[]" and tr' = "[]" and m = "''connection lost''" and n = 0 and rs = "[]"
               and nombre = "PStr ''Ana''" and email = "PStr ''ana@email.com''" and edad = "PInt 30"
               and user_id = "PInt 7"]
          execution_failure_returns_no_match_value
            [OF c [of "Inl (SQLAlchemyError ''connection lost'')"] r l
                c [of "Inr \<lparr>rows = [], rowcount = 0\<rparr>"] m x,
             where tr = "[]" and tr' = "[]" and m = "''connection lost''" and n = 0 and rs = "[]"
               and nombre = PNone and email = PNone and edad = "PInt 31"
               and user_id = "PInt 7"]
    by (simp add: stub_defs)
qed

section \<open>The statements sent to the engine\<close>

lemma statements_append [simp]: "statements (xs @ ys) = statements xs @ statements ys"
  by (induction xs rule: statements.induct) simp_all

lemma update_fields_cases:
  "update_fields user_id nombre email edad =
     ((if nombre \<noteq> PNone then [''nombre = :nombre''] else []) @
      (if email \<noteq> PNone then [''email = :email''] else []) @
      (if edad \<noteq> PNone then [''edad = :edad''] else []),
      [(''user_id'', user_id)] @
      (if nombre \<noteq> PNone then [(''nombre'', nombre)] else []) @
      (if email \<noteq> PNone then [(''email'', email)] else []) @
      (if edad \<noteq> PNone then [(''edad'', edad)] else []))"
  by (simp add: update_fields_def)

lemma update_sql_columns:
  "\<forall>b1 b2 b3.
     sublist ''nombre'' (update_sql (assignments b1 b2 b3)) = b1 \<and>
     sublist ''email'' (update_sql (assignments b1 b2 b3)) = b2 \<and>
     sublist ''edad'' (update_sql (assignments b1 b2 b3)) = b3"
  by code_simp

lemma updates_assignments:
  "fst (update_fields user_id nombre email edad) =
     assignments (nombre \<noteq> PNone) (email \<noteq> PNone) (edad \<noteq> PNone)"
  by (simp add: update_fields_cases assignments_def)

lemma update_sql_mentions_supplied:
  "(sublist ''nombre'' (update_sql (fst (update_fields user_id nombre email edad))) \<longleftrightarrow> nombre \<noteq> PNone) \<and>
         (sublist ''email'' (update_sql (fst (update_fields user_id nombre email edad))) \<longleftrightarrow> email \<noteq> PNone) \<and>
         (sublist ''edad'' (update_sql (fst (update_fields user_id nombre email edad))) \<longleftrightarrow> edad \<noteq> PNone)"
  unfolding updates_assignments
  using update_sql_columns [rule_format, of "nombre \<noteq> PNone" "email \<noteq> PNone" "edad \<noteq> PNone"]
  by (simp only:)

lemma statements_tail [simp]:
  "statements (xs @ (if b then [ERollback, EClose] else [EClose])) = statements xs"
  by simp

lemma statements_acquired:
  assumes "engine_connect d s = (Inr u, s1)"
  shows "statements (trace_of (get_connection d body (s, tr))) =
         statements (trace_of (body (s1, tr @ [EConnect])))"
  by (simp add: get_connection_acquired [OF assms] del: statements_append)

lemma statements_body:
  "statements (trace_of (and_then (call (EExecute q ps) (conn_execute d q ps)) f (s1, tr))) =
     statements (case conn_execute d q ps s1 of
                   (Inl e, s2) \<Rightarrow> tr @ [EExecute q ps]
                 | (Inr c, s2) \<Rightarrow> trace_of (f c (s2, tr @ [EExecute q ps])))"
  by (simp add: and_then_def call_def trace_of_def split: prod.splits sum.splits)

lemma statements_write_body:
  "statements (trace_of (write_body d q ps (s1, tr))) = statements tr @ [(q, ps)]"
  unfolding write_body_def statements_body
  by (simp add: and_then_def call_def returns_def trace_of_def split: prod.splits sum.splits)

lemma statements_create_body:
  "statements (trace_of (create_user_body d nombre email edad (s1, tr))) =
     statements tr @ [(insert_sql, [(''nombre'', nombre), (''email'', email), (''edad'', edad)])]"
  unfolding create_user_body_def Let_def statements_body
  by (simp add: and_then_def call_def returns_def lift_def trace_of_def split: prod.splits sum.splits)

lemma statements_read_body:
  "statements (trace_of (read_user_body d user_id (s1, tr))) =
     statements tr @ [(select_one_sql, [(''user_id'', user_id)])]"
  unfolding read_user_body_def Let_def statements_body
  by (simp add: and_then_def returns_def lift_def trace_of_def
           split: prod.splits sum.splits option.splits)

lemma statements_read_all_body:
  "statements (trace_of (read_all_users_body d (s1, tr))) = statements tr @ [(select_all_sql, [])]"
  unfolding read_all_users_body_def statements_body
  by (simp add: lift_def trace_of_def split: prod.splits sum.splits)

lemma updates_members:
  assumes "update_fields user_id nombre email edad = (updates, ps)"
  shows "(''nombre = :nombre'' \<in> set updates \<longleftrightarrow> nombre \<noteq> PNone) \<and>
         (''email = :email'' \<in> set updates \<longleftrightarrow> email \<noteq> PNone) \<and>
         (''edad = :edad'' \<in> set updates \<longleftrightarrow> edad \<noteq> PNone) \<and>
         set updates \<subseteq> {''nombre = :nombre'', ''email = :email'', ''edad = :edad''} \<and>
         distinct updates"
proof -
  have u: "updates = (if nombre \<noteq> PNone then [''nombre = :nombre''] else []) @
      (if email \<noteq> PNone then [''email = :email''] else []) @
      (if edad \<noteq> PNone then [''edad = :edad''] else [])"
    using assms by (simp add: update_fields_cases)
  show ?thesis unfolding u by simp
qed

lemma params_bound:
  assumes "update_fields user_id nombre email edad = (updates, ps)"
  shows "map_of ps ''user_id'' = Some user_id \<and>
         map_of ps ''nombre'' = (if nombre = PNone then None else Some nombre) \<and>
         map_of ps ''email'' = (if email = PNone then None else Some email) \<and>
         map_of ps ''edad'' = (if edad = PNone then None else Some edad) \<and>
         fst ` set ps \<subseteq> {''user_id'', ''nombre'', ''email'', ''edad''}"
proof -
  have p: "ps = [(''user_id'', user_id)] @
      (if nombre \<noteq> PNone then [(''nombre'', nombre)] else []) @
      (if email \<noteq> PNone then [(''email'', email)] else []) @
      (if edad \<noteq> PNone then [(''edad'', edad)] else [])"
    using assms by (simp add: update_fields_cases)
  show ?thesis unfolding p by simp
qed

lemma statements_op:
  assumes "engine_connect d s = (Inr u, s1)"
  shows "statements (trace_of (create_user d nombre email edad (s, tr))) =
           statements tr @ [(insert_sql, [(''nombre'', nombre), (''email'', email), (''edad'', edad)])]"
    and "statements (trace_of (read_user d user_id (s, tr))) =
           statements tr @ [(select_one_sql, [(''user_id'', user_id)])]"
    and "statements (trace_of (read_all_users d (s, tr))) = statements tr @ [(select_all_sql, [])]"
    and "statements (trace_of (delete_user d user_id (s, tr))) =
           statements tr @ [(delete_sql, [(''user_id'', user_id)])]"
    and "statements (trace_of (except_SQLAlchemyError False
            (get_connection d (write_body d q ps) (s, tr)))) = statements tr @ [(q, ps)]"
  by (simp_all add: create_user_def read_user_def read_all_users_def delete_user_def
        statements_acquired [OF assms] statements_create_body statements_read_body
        statements_read_all_body statements_write_body)

lemma statements_update:
  "statements (trace_of (update_user d user_id nombre email edad (s, tr))) =
     statements tr @
       (if fst (update_fields user_id nombre email edad) = [] then []
        else case engine_connect d s of
               (Inl e, s1) \<Rightarrow> []
             | (Inr u, s1) \<Rightarrow>
                 [(update_sql (fst (update_fields user_id nombre email edad)),
                   snd (update_fields user_id nombre email edad))])"
proof (cases "update_fields user_id nombre email edad")
  case (Pair updates ps)
  show ?thesis
  proof (cases "updates = []")
    case True
    with Pair show ?thesis by (simp add: update_user_def trace_of_def)
  next
    case False
    show ?thesis
    proof (cases "engine_connect d s")
      case c: (Pair r s1)
      show ?thesis
      proof (cases r)
        case (Inl e)
        with c Pair False show ?thesis
          by (simp add: update_user_def get_connection_refused trace_of_def
                except_SQLAlchemyError_def split: exn.splits)
      next
        case (Inr v)
        with c have "engine_connect d s = (Inr v, s1)" by simp
        from statements_op(5) [OF this] Pair False c Inr show ?thesis
          by (simp add: update_user_def)
      qed
    qed
  qed
qed


text \<open>
  Claim C1. When at least one of \<open>nombre\<close>, \<open>email\<close>, \<open>edad\<close> is not \<open>None\<close>, the
  assignment list of the \<open>UPDATE\<close> statement holds \<open>column = :column\<close> for exactly the
  arguments that are not \<open>None\<close>, once each; the name of a column occurs in the text of
  the statement exactly when it was supplied; the parameters bind \<open>user_id\<close> and each
  supplied field, by name, to the supplied value, hold no other key and bind no field
  to \<open>None\<close>. That statement with these parameters is the only one \<open>update_user\<close> sends
  (and it sends it when the connection is acquired). So the statement assigns no
  column that was not supplied; that the engine then leaves such a column as stored is
  the meaning of \<open>UPDATE ... SET\<close> in the engine.
\<close>

theorem update_user_assignments_exact:
  assumes "update_fields user_id nombre email edad = (updates, ps)" and "updates \<noteq> []"
  shows "(''nombre = :nombre'' \<in> set updates \<longleftrightarrow> nombre \<noteq> PNone) \<and>
         (''email = :email'' \<in> set updates \<longleftrightarrow> email \<noteq> PNone) \<and>
         (''edad = :edad'' \<in> set updates \<longleftrightarrow> edad \<noteq> PNone) \<and>
         set updates \<subseteq> {''nombre = :nombre'', ''email = :email'', ''edad = :edad''} \<and>
         distinct updates \<and>
         (sublist ''nombre'' (update_sql updates) \<longleftrightarrow> nombre \<noteq> PNone) \<and>
         (sublist ''email'' (update_sql updates) \<longleftrightarrow> email \<noteq> PNone) \<and>
         (sublist ''edad'' (update_sql updates) \<longleftrightarrow> edad \<noteq> PNone) \<and>
         map_of ps ''user_id'' = Some user_id \<and>
         map_of ps ''nombre'' = (if nombre = PNone then None else Some nombre) \<and>
         map_of ps ''email'' = (if email = PNone then None else Some email) \<and>
         map_of ps ''edad'' = (if edad = PNone then None else Some edad) \<and>
         fst ` set ps \<subseteq> {''user_id'', ''nombre'', ''email'', ''edad''} \<and>
         statements (trace_of (update_user d user_id nombre email edad (s, tr))) =
           statements tr @
             (case engine_connect d s of (Inl e, s1) \<Rightarrow> [] | (Inr u, s1) \<Rightarrow> [(update_sql updates, ps)])"
proof -
  note m = updates_members [OF assms(1)]
  have u: "fst (update_fields user_id nombre email edad) = updates"
    and p: "snd (update_fields user_id nombre email edad) = ps"
    using assms(1) by simp_all
  have t: "(sublist ''nombre'' (update_sql updates) \<longleftrightarrow> nombre \<noteq> PNone) \<and>
         (sublist ''email'' (update_sql updates) \<longleftrightarrow> email \<noteq> PNone) \<and>
         (sublist ''edad'' (update_sql updates) \<longleftrightarrow> edad \<noteq> PNone)"
    using update_sql_mentions_supplied [of user_id nombre email edad] unfolding u .
  note b = params_bound [OF assms(1)]
  have e: "statements (trace_of (update_user d user_id nombre email edad (s, tr))) =
           statements tr @
             (case engine_connect d s of (Inl e, s1) \<Rightarrow> [] | (Inr u, s1) \<Rightarrow> [(update_sql updates, ps)])"
    using assms(2) unfolding statements_update u p by simp
  from m t b e show ?thesis by (intro conjI) (erule conjunct1 | erule conjunct2 | assumption | simp)+
qed

theorem update_user_assignments_exact_witness:
  "update_fields (PInt 2) (PStr ''Maria Fernandez'') PNone (PInt 26) =
     ([''nombre = :nombre'', ''edad = :edad''],
      [(''user_id'', PInt 2), (''nombre'', PStr ''Maria Fernandez''), (''edad'', PInt 26)]) \<and>
   \<not> sublist ''email'' (update_sql [''nombre = :nombre'', ''edad = :edad'']) \<and>
   map_of [(''user_id'', PInt 2), (''nombre'', PStr ''Maria Fernandez''), (''edad'', PInt 26)] ''email''
     = None \<and>
   statements (trace_of (update_user (stub_driver ok (Inr \<lparr>rows = [], rowcount = 1\<rparr>) ok ok ok)
       (PInt 2) (PStr ''Maria Fernandez'') PNone (PInt 26) new_world)) =
     [(update_sql [''nombre = :nombre'', ''edad = :edad''],
       [(''user_id'', PInt 2), (''nombre'', PStr ''Maria Fernandez''), (''edad'', PInt 26)])]"
proof -
  have h: "update_fields (PInt 2) (PStr ''Maria Fernandez'') PNone (PInt 26) =
     ([''nombre = :nombre'', ''edad = :edad''],
      [(''user_id'', PInt 2), (''nombre'', PStr ''Maria Fernandez''), (''edad'', PInt 26)])"
    by (simp add: update_fields_def)
  have n: "[''nombre = :nombre'', ''edad = :edad''] \<noteq> []"
    by simp
  note T = update_user_assignments_exact
            [OF h n, where d = "stub_driver ok (Inr \<lparr>rows = [], rowcount = 1\<rparr>) ok ok ok"
               and s = "()" and tr = "[]"]
  have a: "sublist ''email'' (update_sql [''nombre = :nombre'', ''edad = :edad'']) \<longleftrightarrow> PNone \<noteq> PNone"
    using T by (elim conjE)
  have b: "map_of [(''user_id'', PInt 2), (''nombre'', PStr ''Maria Fernandez''), (''edad'', PInt 26)]
             ''email'' = (if PNone = PNone then None else Some PNone)"
    using T by (elim conjE)
  have c: "statements (trace_of (update_user (stub_driver ok (Inr \<lparr>rows = [], rowcount = 1\<rparr>) ok ok ok)
       (PInt 2) (PStr ''Maria Fernandez'') PNone (PInt 26) ((), []))) =
     statements [] @
       (case engine_connect (stub_driver ok (Inr \<lparr>rows = [], rowcount = 1\<rparr>) ok ok ok) () of
          (Inl e, s1) \<Rightarrow> []
        | (Inr u, s1) \<Rightarrow>
            [(update_sql [''nombre = :nombre'', ''edad = :edad''],
              [(''user_id'', PInt 2), (''nombre'', PStr ''Maria Fernandez''), (''edad'', PInt 26)])])"
    using T by (elim conjE)
  from a have a': "\<not> sublist ''email'' (update_sql [''nombre = :nombre'', ''edad = :edad''])"
    by (simp only: simp_thms)
  from b have b': "map_of [(''user_id'', PInt 2), (''nombre'', PStr ''Maria Fernandez''), (''edad'', PInt 26)]
             ''email'' = None"
    by (simp only: if_True simp_thms)
  from c have c': "statements (trace_of (update_user (stub_driver ok (Inr \<lparr>rows = [], rowcount = 1\<rparr>) ok ok ok)
       (PInt 2) (PStr ''Maria Fernandez'') PNone (PInt 26) new_world)) =
     [(update_sql [''nombre = :nombre'', ''edad = :edad''],
       [(''user_id'', PInt 2), (''nombre'', PStr ''Maria Fernandez''), (''edad'', PInt 26)])]"
    by (simp add: stub_defs)
  from h a' b' c' show ?thesis by (intro conjI)
qed

text \<open>
  Claim C9. The text of the statement an operation sends does not depend on the values
  it is given: two calls of the same operation, on any two drivers that grant a
  connection, send the same text, for \<open>update_user\<close> whenever the same fields are
  supplied. The values reach the engine in the parameter dictionary only. In the
  instance that follows the theorem, \<open>update_user\<close> is given a name that is a piece of
  SQL: the text is that of a run with an ordinary name.
\<close>

theorem statement_text_independent_of_values:
  assumes "engine_connect d s = (Inr u, s1)" and "engine_connect d' s' = (Inr u', s1')"
  shows "map fst (statements (trace_of (create_user d nombre email edad (s, [])))) =
           map fst (statements (trace_of (create_user d' nombre' email' edad' (s', [])))) \<and>
         map fst (statements (trace_of (read_user d user_id (s, [])))) =
           map fst (statements (trace_of (read_user d' user_id' (s', [])))) \<and>
         map fst (statements (trace_of (read_all_users d (s, [])))) =
           map fst (statements (trace_of (read_all_users d' (s', [])))) \<and>
         ((nombre = PNone \<longleftrightarrow> nombre' = PNone) \<and> (email = PNone \<longleftrightarrow> email' = PNone) \<and>
          (edad = PNone \<longleftrightarrow> edad' = PNone) \<longrightarrow>
          map fst (statements (trace_of (update_user d user_id nombre email edad (s, [])))) =
            map fst (statements (trace_of (update_user d' user_id' nombre' email' edad' (s', []))))) \<and>
         map fst (statements (trace_of (delete_user d user_id (s, [])))) =
           map fst (statements (trace_of (delete_user d' user_id' (s', [])))) \<and>
         map snd (statements (trace_of (create_user d nombre email edad (s, [])))) =
           [[(''nombre'', nombre), (''email'', email), (''edad'', edad)]] \<and>
         map snd (statements (trace_of (read_user d user_id (s, [])))) = [[(''user_id'', user_id)]] \<and>
         map snd (statements (trace_of (delete_user d user_id (s, [])))) = [[(''user_id'', user_id)]] \<and>
         map snd (statements (trace_of (update_user d user_id nombre email edad (s, [])))) =
           (if nombre = PNone \<and> email = PNone \<and> edad = PNone then []
            else [snd (update_fields user_id nombre email edad)])"
proof -
  note c = assms(1) and c' = assms(2)
  have empty: "fst (update_fields uid n e a) = [] \<longleftrightarrow> n = PNone \<and> e = PNone \<and> a = PNone"
    for uid n e a
    by (simp add: update_fields_cases)
  have same: "fst (update_fields user_id nombre email edad) =
              fst (update_fields user_id' nombre' email' edad')"
    if "nombre = PNone \<longleftrightarrow> nombre' = PNone" "email = PNone \<longleftrightarrow> email' = PNone"
       "edad = PNone \<longleftrightarrow> edad' = PNone"
    using that by (simp add: updates_assignments)
  have f1: "map fst (statements (trace_of (create_user d nombre email edad (s, [])))) =
           map fst (statements (trace_of (create_user d' nombre' email' edad' (s', []))))"
    by (simp add: statements_op(1) [OF c] statements_op(1) [OF c'])
  have f2: "map fst (statements (trace_of (read_user d user_id (s, [])))) =
           map fst (statements (trace_of (read_user d' user_id' (s', []))))"
    by (simp add: statements_op(2) [OF c] statements_op(2) [OF c'])
  have f3: "map fst (statements (trace_of (read_all_users d (s, [])))) =
           map fst (statements (trace_of (read_all_users d' (s', []))))"
    by (simp add: statements_op(3) [OF c] statements_op(3) [OF c'])
  have f4: "(nombre = PNone \<longleftrightarrow> nombre' = PNone) \<and> (email = PNone \<longleftrightarrow> email' = PNone) \<and>
          (edad = PNone \<longleftrightarrow> edad' = PNone) \<longrightarrow>
          map fst (statements (trace_of (update_user d user_id nombre email edad (s, [])))) =
            map fst (statements (trace_of (update_user d' user_id' nombre' email' edad' (s', []))))"
  proof (intro impI, elim conjE)
    assume h: "nombre = PNone \<longleftrightarrow> nombre' = PNone" "email = PNone \<longleftrightarrow> email' = PNone"
       "edad = PNone \<longleftrightarrow> edad' = PNone"
    show "map fst (statements (trace_of (update_user d user_id nombre email edad (s, [])))) =
            map fst (statements (trace_of (update_user d' user_id' nombre' email' edad' (s', []))))"
      unfolding statements_update same [OF h] by (simp add: c c')
  qed
  have f5: "map fst (statements (trace_of (delete_user d user_id (s, [])))) =
           map fst (statements (trace_of (delete_user d' user_id' (s', []))))"
    by (simp add: statements_op(4) [OF c] statements_op(4) [OF c'])
  have f6: "map snd (statements (trace_of (create_user d nombre email edad (s, [])))) =
           [[(''nombre'', nombre), (''email'', email), (''edad'', edad)]]"
    by (simp add: statements_op(1) [OF c])
  have f7: "map snd (statements (trace_of (read_user d user_id (s, [])))) = [[(''user_id'', user_id)]]"
    by (simp add: statements_op(2) [OF c])
  have f8: "map snd (statements (trace_of (delete_user d user_id (s, [])))) = [[(''user_id'', user_id)]]"
    by (simp add: statements_op(4) [OF c])
  have f9: "map snd (statements (trace_of (update_user d user_id nombre email edad (s, [])))) =
           (if nombre = PNone \<and> email = PNone \<and> edad = PNone then []
            else [snd (update_fields user_id nombre email edad)])"
    unfolding statements_update empty by (simp add: c)
  show ?thesis
    by (intro conjI) (rule f1 f2 f3 f4 f5 f6 f7 f8 f9)+
qed

theorem statement_text_independent_of_values_witness:
  "map fst (statements (trace_of (update_user (stub_driver ok (Inr \<lparr>rows = [], rowcount = 1\<rparr>) ok ok ok)
       (PInt 1) (PStr ''Juan'') PNone PNone ((), [])))) =
   map fst (statements (trace_of (update_user (stub_driver ok (Inr \<lparr>rows = [], rowcount = 0\<rparr>) ok ok ok)
       (PInt 2) (PStr ''Robert); DROP TABLE users; --'') PNone PNone ((), [])))) \<and>
   map snd (statements (trace_of (update_user (stub_driver ok (Inr \<lparr>rows = [], rowcount = 1\<rparr>) ok ok ok)
       (PInt 1) (PStr ''Juan'') PNone PNone ((), [])))) =
     [[(''user_id'', PInt 1), (''nombre'', PStr ''Juan'')]]"
proof -
  have c: "engine_connect (stub_driver ok e ok ok ok) () = (Inr (), ())" for e
    by (simp add: stub_defs)
  note T = statement_text_independent_of_values
            [OF c [of "Inr \<lparr>rows = [], rowcount = 1\<rparr>"] c [of "Inr \<lparr>rows = [], rowcount = 0\<rparr>"],
             where user_id = "PInt 1" and nombre = "PStr ''Juan''" and email = PNone and edad = PNone
               and user_id' = "PInt 2" and nombre' = "PStr ''Robert); DROP TABLE users; --''"
               and email' = PNone and edad' = PNone]
  have a: "(PStr ''Juan'' = PNone \<longleftrightarrow> PStr ''Robert); DROP TABLE users; --'' = PNone) \<and>
           (PNone = PNone \<longleftrightarrow> PNone = PNone) \<and> (PNone = PNone \<longleftrightarrow> PNone = PNone) \<longrightarrow>
     map fst (statements (trace_of (update_user (stub_driver ok (Inr \<lparr>rows = [], rowcount = 1\<rparr>) ok ok ok)
       (PInt 1) (PStr ''Juan'') PNone PNone ((), [])))) =
     map fst (statements (trace_of (update_user (stub_driver ok (Inr \<lparr>rows = [], rowcount = 0\<rparr>) ok ok ok)
       (PInt 2) (PStr ''Robert); DROP TABLE users; --'') PNone PNone ((), []))))"
    using T by (elim conjE)
  have b: "map snd (statements (trace_of (update_user (stub_driver ok (Inr \<lparr>rows = [], rowcount = 1\<rparr>) ok ok ok)
       (PInt 1) (PStr ''Juan'') PNone PNone ((), [])))) =
       (if PStr ''Juan'' = PNone \<and> PNone = PNone \<and> PNone = PNone then []
        else [snd (update_fields (PInt 1) (PStr ''Juan'') PNone PNone)])"
    using T by (elim conjE)
  have a': "map fst (statements (trace_of (update_user (stub_driver ok (Inr \<lparr>rows = [], rowcount = 1\<rparr>) ok ok ok)
       (PInt 1) (PStr ''Juan'') PNone PNone ((), [])))) =
     map fst (statements (trace_of (update_user (stub_driver ok (Inr \<lparr>rows = [], rowcount = 0\<rparr>) ok ok ok)
       (PInt 2) (PStr ''Robert); DROP TABLE users; --'') PNone PNone ((), []))))"
    by (rule a [rule_format]) simp
  have u: "snd (update_fields (PInt 1) (PStr ''Juan'') PNone PNone) =
             [(''user_id'', PInt 1), (''nombre'', PStr ''Juan'')]"
    by (simp add: update_fields_def)
  have b': "map snd (statements (trace_of (update_user (stub_driver ok (Inr \<lparr>rows = [], rowcount = 1\<rparr>) ok ok ok)
       (PInt 1) (PStr ''Juan'') PNone PNone ((), [])))) =
     [[(''user_id'', PInt 1), (''nombre'', PStr ''Juan'')]]"
    unfolding b u by simp
  from a' b' show ?thesis by (intro conjI)
qed

end
